theory Spec2Isabelle
  imports Main
begin

section \<open>Data model of the inventory service\<close>

text \<open>
  The service (\<^verbatim>\<open>InventoryService\<close>) turns the item entries of a business document
  into inventory transactions, stamps them with a lot number kept in the tenant's
  settings, dispatches the cost computation of an item and schedules
  \<^verbatim>\<open>compute-item-cost\<close> jobs on a job queue.

  Identifiers (tenant, item, document and entry ids) are natural numbers. A
  \<^verbatim>\<open>Date | string\<close> argument is a point of a linear order and is an integer here;
  quantities, rates and lot numbers are JavaScript numbers that the service only
  copies or increments by one, and are integers here (exact for a double below
  \<open>2 ^ 53\<close>).
\<close>

type_synonym jsdate = int

datatype TInventoryTransactionDirection = IN | OUT

datatype TCostMethod = FIFO | LIFO | AVG

text \<open>
  Modelled from the spec: the interface \<^verbatim>\<open>IItemEntry\<close> is imported from
  \<^verbatim>\<open>interfaces\<close>; the service reads the six fields below. The three fields that
  lodash's \<^verbatim>\<open>pick\<close> copies may be absent from the object (\<open>None\<close>).
\<close>

record IItemEntry =
  ie_id :: nat
  ie_referenceType :: string
  ie_referenceId :: nat
  ie_itemId :: "nat option"
  ie_quantity :: "int option"
  ie_rate :: "int option"

text \<open>
  Modelled from the spec: \<^verbatim>\<open>IInventoryTransaction\<close>, the object literal that
  \<^verbatim>\<open>transformItemEntriesToInventory\<close> builds.
\<close>

record IInventoryTransaction =
  itemId :: "nat option"
  quantity :: "int option"
  rate :: "int option"
  lotNumber :: int
  transactionType :: string
  transactionId :: nat
  direction :: TInventoryTransactionDirection
  date :: jsdate
  entryId :: nat

text \<open>
  Modelled from the spec: \<^verbatim>\<open>IInventoryLotCost\<close>, the row written by the lot-tracking
  strategy (item, lot number, cost rate, remaining quantity, originating transaction).
\<close>

record IInventoryLotCost =
  lc_itemId :: nat
  lc_lotNumber :: int
  lc_cost :: int
  lc_remaining :: int
  lc_transactionType :: string
  lc_transactionId :: nat

text \<open>
  Modelled from the spec: the \<^verbatim>\<open>Item\<close> model, with its \<^verbatim>\<open>type\<close> classification and
  its configured cost method.
\<close>

record Item =
  item_id :: nat
  item_type :: string
  item_costMethod :: TCostMethod

text \<open>A job of the queue: its name, when it runs next (\<open>None\<close> for \<^verbatim>\<open>null\<close>) and its data.\<close>

record Job =
  job_name :: string
  nextRunAt :: "int option"
  data_startingDate :: jsdate
  data_itemId :: nat
  data_tenantId :: nat

text \<open>The three events of \<^verbatim>\<open>events.inventory\<close> that the service dispatches, with their payloads.\<close>

datatype event =
    onComputeItemCostJobScheduled jsdate nat nat
  | onInventoryTransactionsCreated nat "IInventoryTransaction list"
  | onInventoryTransactionsDeleted nat "IInventoryTransaction list" nat string

text \<open>
  The store of one tenant (\<^verbatim>\<open>tenancy.models\<close>, \<^verbatim>\<open>tenancy.repositories\<close>,
  \<^verbatim>\<open>tenancy.settings\<close>): its tables as lists of rows in insertion order, its settings
  as a map from key to value.

  Modelled from the spec: the settings store is a key-value store (\<^verbatim>\<open>find\<close>,
  \<^verbatim>\<open>set\<close>, \<^verbatim>\<open>save\<close>); \<^verbatim>\<open>set\<close> binds the key to the value, \<^verbatim>\<open>find\<close> after it
  returns that value, and \<^verbatim>\<open>save\<close> makes the binding durable without changing it.
  The value under the lot number key is a number.
\<close>

record tenant_db =
  items :: "Item list"
  inventoryTransactions :: "IInventoryTransaction list"
  inventoryCostLotTracker :: "IInventoryLotCost list"
  settings :: "string \<rightharpoonup> int"

text \<open>
  Everything the service reads and writes: the tenants' stores, the events dispatched so
  far (oldest first) and the job queue.
\<close>

record world =
  tenancy :: "nat \<Rightarrow> tenant_db"
  dispatched :: "event list"
  agenda :: "Job list"

text \<open>
  What a call can throw: the \<^verbatim>\<open>Error\<close> raised by the service itself, and the
  \<^verbatim>\<open>TypeError\<close> of JavaScript for reading a property of \<^verbatim>\<open>undefined\<close>.
\<close>

datatype error = Error string | TypeError

section \<open>Entry transformer\<close>

text \<open>
  \<^verbatim>\<open>itemEntries.map(entry => ({...pick(entry, ['itemId', 'quantity', 'rate']),
  lotNumber, transactionType: entry.referenceType, transactionId: entry.referenceId,
  direction, date, entryId: entry.id}))\<close>.
  \<^verbatim>\<open>pick\<close> copies the properties that the entry has and skips the others; it does not
  throw.
\<close>

definition transformItemEntriesToInventory ::
  "IItemEntry list \<Rightarrow> TInventoryTransactionDirection \<Rightarrow> jsdate \<Rightarrow> int
     \<Rightarrow> IInventoryTransaction list" where
  "transformItemEntriesToInventory itemEntries dir dt lot =
     map (\<lambda>entry.
       \<lparr> itemId = ie_itemId entry,
         quantity = ie_quantity entry,
         rate = ie_rate entry,
         lotNumber = lot,
         transactionType = ie_referenceType entry,
         transactionId = ie_referenceId entry,
         direction = dir,
         date = dt,
         entryId = ie_id entry \<rparr>) itemEntries"

section \<open>Lot sequencer\<close>

definition LOT_NUMBER_KEY :: string where
  "LOT_NUMBER_KEY = ''lot_number_increment''"

text \<open>
  \<^verbatim>\<open>storedLotNumber && storedLotNumber.value ? parseInt(storedLotNumber.value, 10) : 1\<close>:
  the stored number when the key is bound to a truthy (non-zero) number, else 1.
  \<^verbatim>\<open>parseInt\<close> of an integer number is that number.
\<close>

definition getNextLotNumber :: "nat \<Rightarrow> world \<Rightarrow> int" where
  "getNextLotNumber tenantId w =
     (case settings (tenancy w tenantId) LOT_NUMBER_KEY of
        None \<Rightarrow> 1
      | Some v \<Rightarrow> if v \<noteq> 0 then v else 1)"

text \<open>
  \<^verbatim>\<open>let lotNumber = 1; if (storedLotNumber && storedLotNumber.value) { lotNumber =
  parseInt(storedLotNumber.value, 10); lotNumber += 1; } settings.set({key}, lotNumber);
  await settings.save(); return lotNumber;\<close>
\<close>

definition incrementNextLotNumber :: "nat \<Rightarrow> world \<Rightarrow> int \<times> world" where
  "incrementNextLotNumber tenantId w =
     (let db = tenancy w tenantId;
          lot = (case settings db LOT_NUMBER_KEY of
                   None \<Rightarrow> 1
                 | Some v \<Rightarrow> if v \<noteq> 0 then v + 1 else 1)
      in (lot,
          w\<lparr>tenancy := (tenancy w)
               (tenantId := db\<lparr>settings := (settings db)(LOT_NUMBER_KEY \<mapsto> lot)\<rparr>)\<rparr>))"

text \<open>\<open>n\<close> calls one after the other: the values returned, in order, and the world left.\<close>

fun incrementNextLotNumber_times :: "nat \<Rightarrow> nat \<Rightarrow> world \<Rightarrow> int list \<times> world" where
  "incrementNextLotNumber_times 0 tenantId w = ([], w)"
| "incrementNextLotNumber_times (Suc n) tenantId w =
     (case incrementNextLotNumber tenantId w of
        (lot, w') \<Rightarrow>
          (case incrementNextLotNumber_times n tenantId w' of
             (lots, w'') \<Rightarrow> (lot # lots, w'')))"

section \<open>Transaction recorder\<close>

text \<open>
  \<^verbatim>\<open>deleteInventoryTransactions\<close>: finds the rows of the document, deletes them,
  dispatches \<^verbatim>\<open>onInventoryTransactionsDeleted\<close> and returns the rows found.
\<close>

definition deleteInventoryTransactions ::
  "nat \<Rightarrow> nat \<Rightarrow> string \<Rightarrow> world \<Rightarrow> IInventoryTransaction list \<times> world" where
  "deleteInventoryTransactions tenantId tid ty w =
     (let db = tenancy w tenantId;
          oldInventoryTransactions =
            filter (\<lambda>t. transactionId t = tid \<and> transactionType t = ty)
              (inventoryTransactions db);
          db' = db\<lparr>inventoryTransactions :=
                  filter (\<lambda>t. \<not> (transactionType t = ty \<and> transactionId t = tid))
                    (inventoryTransactions db)\<rparr>
      in (oldInventoryTransactions,
          w\<lparr>tenancy := (tenancy w)(tenantId := db'),
            dispatched := dispatched w @
              [onInventoryTransactionsDeleted tenantId oldInventoryTransactions tid ty]\<rparr>))"

text \<open>
  \<^verbatim>\<open>recordInventoryTransaction\<close>: deletes the document's old rows when
  \<^verbatim>\<open>deleteOld\<close>, then inserts the row and returns it.
\<close>

definition recordInventoryTransaction ::
  "nat \<Rightarrow> IInventoryTransaction \<Rightarrow> bool \<Rightarrow> world \<Rightarrow> IInventoryTransaction \<times> world" where
  "recordInventoryTransaction tenantId inventoryEntry deleteOld w =
     (let w1 = (if deleteOld
                then snd (deleteInventoryTransactions tenantId
                            (transactionId inventoryEntry) (transactionType inventoryEntry) w)
                else w);
          db = tenancy w1 tenantId;
          row = inventoryEntry\<lparr>lotNumber := lotNumber inventoryEntry\<rparr>
      in (row,
          w1\<lparr>tenancy := (tenancy w1)
                (tenantId := db\<lparr>inventoryTransactions := inventoryTransactions db @ [row]\<rparr>)\<rparr>))"

text \<open>
  The \<^verbatim>\<open>forEach\<close> of \<^verbatim>\<open>recordInventoryTransactions\<close> starts one
  \<^verbatim>\<open>recordInventoryTransaction\<close> per transaction, in list order, and
  \<^verbatim>\<open>Promise.all\<close> waits for all of them. The model runs them to completion one after
  the other in that order. Without \<^verbatim>\<open>override\<close> each of them is a single insert, so
  this is the order of the rows; with \<^verbatim>\<open>override\<close> the source leaves the
  interleaving of the deletions and insertions to the store, and the order taken here is
  one of those it admits.
\<close>

fun bulkInsertOpers ::
  "nat \<Rightarrow> bool \<Rightarrow> IInventoryTransaction list \<Rightarrow> world \<Rightarrow> IInventoryTransaction list \<times> world" where
  "bulkInsertOpers tenantId override [] w = ([], w)"
| "bulkInsertOpers tenantId override (transaction # rest) w =
     (case recordInventoryTransaction tenantId transaction override w of
        (row, w') \<Rightarrow>
          (case bulkInsertOpers tenantId override rest w' of
             (rows, w'') \<Rightarrow> (row # rows, w'')))"

definition recordInventoryTransactions ::
  "nat \<Rightarrow> IInventoryTransaction list \<Rightarrow> bool \<Rightarrow> world \<Rightarrow> world" where
  "recordInventoryTransactions tenantId transactions override w =
     (case bulkInsertOpers tenantId override transactions w of
        (rows, w') \<Rightarrow>
          w'\<lparr>dispatched := dispatched w' @ [onInventoryTransactionsCreated tenantId rows]\<rparr>)"

text \<open>
  \<^verbatim>\<open>recordInventoryTransactionsFromItemsEntries\<close>. The entries collaborator
  (\<^verbatim>\<open>itemsEntriesService.getInventoryEntries\<close>) is a parameter: the inventory-typed
  entries of a tenant's document.
\<close>

definition recordInventoryTransactionsFromItemsEntries ::
  "(nat \<Rightarrow> string \<Rightarrow> nat \<Rightarrow> IItemEntry list)
     \<Rightarrow> nat \<Rightarrow> nat \<Rightarrow> string \<Rightarrow> jsdate \<Rightarrow> TInventoryTransactionDirection \<Rightarrow> bool
     \<Rightarrow> world \<Rightarrow> world" where
  "recordInventoryTransactionsFromItemsEntries getInventoryEntries
       tenantId tid ty transactionDate transactionDirection override w =
     (let lot = getNextLotNumber tenantId w;
          inventoryEntries = getInventoryEntries tenantId ty tid
      in if length inventoryEntries \<le> 0 then w
         else
           (let inventoryTranscations =
                  transformItemEntriesToInventory inventoryEntries
                    transactionDirection transactionDate lot;
                w1 = recordInventoryTransactions tenantId inventoryTranscations override w
            in snd (incrementNextLotNumber tenantId w1)))"

section \<open>Cost compute dispatcher\<close>

text \<open>
  The object that \<^verbatim>\<open>computeItemCost\<close> constructs: one of the two strategy classes,
  with the constructor's arguments (tenant, from date, item).
\<close>

datatype IInventoryCostMethod =
    InventoryCostLotTracker nat jsdate nat
  | InventoryAverageCost nat jsdate nat

text \<open>\<^verbatim>\<open>Item.query().findById(itemId)\<close>: the row with that id, \<^verbatim>\<open>undefined\<close> if none.\<close>

definition findById :: "Item list \<Rightarrow> nat \<Rightarrow> Item option" where
  "findById rows i = find (\<lambda>r. item_id r = i) rows"

text \<open>
  The \<^verbatim>\<open>switch\<close> statement of \<^verbatim>\<open>computeItemCost\<close>, as a function of the value it
  switches on: the cases \<^verbatim>\<open>'FIFO'\<close> and \<^verbatim>\<open>'LIFO'\<close> fall through to the lot
  tracker, the case \<^verbatim>\<open>'AVG'\<close> builds the average cost computer.
\<close>

fun costMethodSwitch :: "TCostMethod \<Rightarrow> nat \<Rightarrow> jsdate \<Rightarrow> nat \<Rightarrow> IInventoryCostMethod" where
  "costMethodSwitch FIFO tenantId fromDate i = InventoryCostLotTracker tenantId fromDate i"
| "costMethodSwitch LIFO tenantId fromDate i = InventoryCostLotTracker tenantId fromDate i"
| "costMethodSwitch AVG tenantId fromDate i = InventoryAverageCost tenantId fromDate i"

text \<open>
  \<^verbatim>\<open>computeItemCost\<close>. The two strategy classes are imported, so what the constructed
  computer's \<^verbatim>\<open>computeItemCost()\<close> does to the world and returns (or throws) is the
  parameter \<open>run\<close>. The source switches on the string literal \<^verbatim>\<open>'AVG'\<close>:
  \<^verbatim>\<open>switch ('AVG') { ... }\<close>. The guard reads \<^verbatim>\<open>item.type\<close> of whatever
  \<^verbatim>\<open>findById\<close> returned, which throws a \<^verbatim>\<open>TypeError\<close> on \<^verbatim>\<open>undefined\<close>.
  The world is returned with the outcome, so that what a failing call wrote is visible.
\<close>

definition computeItemCost ::
  "(IInventoryCostMethod \<Rightarrow> world \<Rightarrow> (error + 'r) \<times> world)
     \<Rightarrow> nat \<Rightarrow> jsdate \<Rightarrow> nat \<Rightarrow> world \<Rightarrow> (error + 'r) \<times> world" where
  "computeItemCost run tenantId fromDate i w =
     (case findById (items (tenancy w tenantId)) i of
        None \<Rightarrow> (Inl TypeError, w)
      | Some item \<Rightarrow>
          if item_type item \<noteq> ''inventory''
          then (Inl (Error ''You could not compute item cost has no inventory type.''), w)
          else run (costMethodSwitch AVG tenantId fromDate i) w)"

text \<open>
  \<^verbatim>\<open>recordInventoryCostLotTransaction\<close>: the insert through which a strategy writes
  a lot cost row.
\<close>

definition recordInventoryCostLotTransaction :: "nat \<Rightarrow> IInventoryLotCost \<Rightarrow> world \<Rightarrow> world" where
  "recordInventoryCostLotTransaction tenantId inventoryLotEntry w =
     (let db = tenancy w tenantId
      in w\<lparr>tenancy := (tenancy w)
             (tenantId := db\<lparr>inventoryCostLotTracker :=
                               inventoryCostLotTracker db @ [inventoryLotEntry]\<rparr>)\<rparr>)"

text \<open>
  A strategy that does nothing but report which computer was run: it makes the choice of
  \<^verbatim>\<open>computeItemCost\<close> observable in its result.
\<close>

definition report_computer :: "IInventoryCostMethod \<Rightarrow> world \<Rightarrow> (error + IInventoryCostMethod) \<times> world" where
  "report_computer c w = (Inr c, w)"

section \<open>Compute scheduler\<close>

text \<open>
  Modelled from the spec: the job queue (\<^verbatim>\<open>agenda\<close>) is an imported collaborator with
  \<^verbatim>\<open>cancel(filter)\<close>, which removes the jobs that match, \<^verbatim>\<open>jobs(filter)\<close>, which
  returns them, and \<^verbatim>\<open>schedule(when, name, data)\<close>, which adds a job that runs at
  the time \<^verbatim>\<open>when\<close> stands for.
\<close>

definition agenda_cancel :: "(Job \<Rightarrow> bool) \<Rightarrow> Job list \<Rightarrow> Job list" where
  "agenda_cancel query q = filter (\<lambda>j. \<not> query j) q"

definition agenda_jobs :: "(Job \<Rightarrow> bool) \<Rightarrow> Job list \<Rightarrow> Job list" where
  "agenda_jobs query q = filter query q"

definition new_job :: "int \<Rightarrow> string \<Rightarrow> jsdate \<Rightarrow> nat \<Rightarrow> nat \<Rightarrow> Job" where
  "new_job runAt name startingDate i tenantId =
     \<lparr> job_name = name, nextRunAt = Some runAt, data_startingDate = startingDate,
       data_itemId = i, data_tenantId = tenantId \<rparr>"

definition agenda_schedule :: "int \<Rightarrow> string \<Rightarrow> jsdate \<Rightarrow> nat \<Rightarrow> nat \<Rightarrow> Job list \<Rightarrow> Job list" where
  "agenda_schedule runAt name startingDate i tenantId q =
     q @ [new_job runAt name startingDate i tenantId]"

text \<open>
  The part that the two queries of \<^verbatim>\<open>scheduleComputeItemCost\<close> share:
  \<^verbatim>\<open>name: 'compute-item-cost', nextRunAt: {$ne: null}, 'data.tenantId': tenantId,
  'data.itemId': itemId\<close>. These are the pending compute jobs of the tenant's item.
\<close>

definition pending_compute_job :: "nat \<Rightarrow> nat \<Rightarrow> Job \<Rightarrow> bool" where
  "pending_compute_job tenantId i j \<longleftrightarrow>
     job_name j = ''compute-item-cost'' \<and> nextRunAt j \<noteq> None \<and>
     data_tenantId j = tenantId \<and> data_itemId j = i"

definition pending_jobs :: "nat \<Rightarrow> nat \<Rightarrow> Job list \<Rightarrow> Job list" where
  "pending_jobs tenantId i q = filter (pending_compute_job tenantId i) q"

text \<open>
  \<^verbatim>\<open>scheduleComputeItemCost\<close>. \<open>runAt\<close> is the time that the queue derives from
  \<^verbatim>\<open>config.scheduleComputeItemCost\<close>, a configuration value.
\<close>

definition scheduleComputeItemCost :: "int \<Rightarrow> nat \<Rightarrow> nat \<Rightarrow> jsdate \<Rightarrow> world \<Rightarrow> world" where
  "scheduleComputeItemCost runAt tenantId i startingDate w =
     (let q = agenda_cancel
                (\<lambda>j. pending_compute_job tenantId i j \<and> data_startingDate j > startingDate)
                (agenda w);
          dependsJobs = agenda_jobs
                (\<lambda>j. pending_compute_job tenantId i j \<and> data_startingDate j \<le> startingDate) q
      in if length dependsJobs = 0
         then w\<lparr>agenda := agenda_schedule runAt ''compute-item-cost'' startingDate i tenantId q,
                dispatched := dispatched w @
                  [onComputeItemCostJobScheduled startingDate i tenantId]\<rparr>
         else w\<lparr>agenda := q\<rparr>)"

section \<open>Example inputs\<close>

text \<open>
  Entries, an entries collaborator, stores and queues on which the theorems below are
  instantiated. \<open>example_entry_bare\<close> has no \<^verbatim>\<open>itemId\<close>.
\<close>

definition example_entry_a :: IItemEntry where
  "example_entry_a =
     \<lparr> ie_id = 11, ie_referenceType = ''Bill'', ie_referenceId = 42,
       ie_itemId = Some 7, ie_quantity = Some 3, ie_rate = Some 10 \<rparr>"

definition example_entry_b :: IItemEntry where
  "example_entry_b =
     \<lparr> ie_id = 12, ie_referenceType = ''Bill'', ie_referenceId = 43,
       ie_itemId = Some 7, ie_quantity = Some 5, ie_rate = Some 20 \<rparr>"

definition example_entry_bare :: IItemEntry where
  "example_entry_bare =
     \<lparr> ie_id = 13, ie_referenceType = ''Bill'', ie_referenceId = 44,
       ie_itemId = None, ie_quantity = Some 1, ie_rate = Some 2 \<rparr>"

text \<open>Bill 42 has one inventory entry, bill 43 another, every other document none.\<close>

definition example_getInventoryEntries :: "nat \<Rightarrow> string \<Rightarrow> nat \<Rightarrow> IItemEntry list" where
  "example_getInventoryEntries tenantId ty tid =
     (if ty = ''Bill'' \<and> tid = 42 then [example_entry_a]
      else if ty = ''Bill'' \<and> tid = 43 then [example_entry_b]
      else [])"

text \<open>
  A tenant with an inventory item (7) whose cost method is FIFO, a service item (8), no
  transaction and no setting.
\<close>

definition example_db :: tenant_db where
  "example_db =
     \<lparr> items = [\<lparr> item_id = 7, item_type = ''inventory'', item_costMethod = FIFO \<rparr>,
                \<lparr> item_id = 8, item_type = ''service'', item_costMethod = AVG \<rparr>],
       inventoryTransactions = [],
       inventoryCostLotTracker = [],
       settings = Map.empty \<rparr>"

definition example_world :: world where
  "example_world = \<lparr> tenancy = (\<lambda>_. example_db), dispatched = [], agenda = [] \<rparr>"

text \<open>
  A queue that holds, for item 7 of tenant 1, a pending compute job that starts at date
  20, and a pending compute job of another item.
\<close>

definition example_world_later_job :: world where
  "example_world_later_job =
     example_world\<lparr>agenda :=
       [new_job 50 ''compute-item-cost'' 20 7 1, new_job 50 ''compute-item-cost'' 1 8 1]\<rparr>"

text \<open>A queue whose only pending compute job for item 7 of tenant 1 starts at date 3.\<close>

definition example_world_early_job :: world where
  "example_world_early_job =
     example_world\<lparr>agenda :=
       [new_job 50 ''compute-item-cost'' 3 7 1, new_job 50 ''compute-item-cost'' 1 8 1]\<rparr>"

text \<open>An entry is malformed when it lacks the item id, the quantity or the rate.\<close>

definition malformed_entry :: "IItemEntry \<Rightarrow> bool" where
  "malformed_entry e \<longleftrightarrow> ie_itemId e = None \<or> ie_quantity e = None \<or> ie_rate e = None"

definition incomplete_transaction :: "IInventoryTransaction \<Rightarrow> bool" where
  "incomplete_transaction t \<longleftrightarrow> itemId t = None \<or> quantity t = None \<or> rate t = None"

section \<open>Entry transformer: properties\<close>

lemma transformItemEntriesToInventory_length:
  "length (transformItemEntriesToInventory es d dt n) = length es"
  by (simp add: transformItemEntriesToInventory_def)

text \<open>
  Claim C8. For every list of item entries and every direction, date and lot number,
  \<^verbatim>\<open>transformItemEntriesToInventory\<close> returns a list as long as its input, and the
  transaction at each position carries the direction, date and lot number of the call,
  the item id, quantity and rate of the entry at that position, the entry's reference
  type and reference id as its transaction type and transaction id, and the entry's id
  as its entry id.
\<close>

theorem transformItemEntriesToInventory_copies_fields:
  "length (transformItemEntriesToInventory es d dt n) = length es \<and>
   (\<forall>k<length es.
      direction (transformItemEntriesToInventory es d dt n ! k) = d \<and>
      date (transformItemEntriesToInventory es d dt n ! k) = dt \<and>
      lotNumber (transformItemEntriesToInventory es d dt n ! k) = n \<and>
      itemId (transformItemEntriesToInventory es d dt n ! k) = ie_itemId (es ! k) \<and>
      quantity (transformItemEntriesToInventory es d dt n ! k) = ie_quantity (es ! k) \<and>
      rate (transformItemEntriesToInventory es d dt n ! k) = ie_rate (es ! k) \<and>
      transactionType (transformItemEntriesToInventory es d dt n ! k) =
        ie_referenceType (es ! k) \<and>
      transactionId (transformItemEntriesToInventory es d dt n ! k) =
        ie_referenceId (es ! k) \<and>
      entryId (transformItemEntriesToInventory es d dt n ! k) = ie_id (es ! k))"
  by (simp add: transformItemEntriesToInventory_def)

theorem transformItemEntriesToInventory_copies_fields_witness:
  "length (transformItemEntriesToInventory [example_entry_a, example_entry_bare] OUT 5 9) = 2 \<and>
   direction (transformItemEntriesToInventory [example_entry_a, example_entry_bare] OUT 5 9 ! 1)
     = OUT \<and>
   date (transformItemEntriesToInventory [example_entry_a, example_entry_bare] OUT 5 9 ! 1)
     = 5 \<and>
   lotNumber (transformItemEntriesToInventory [example_entry_a, example_entry_bare] OUT 5 9 ! 1)
     = 9 \<and>
   itemId (transformItemEntriesToInventory [example_entry_a, example_entry_bare] OUT 5 9 ! 1)
     = None \<and>
   quantity (transformItemEntriesToInventory [example_entry_a, example_entry_bare] OUT 5 9 ! 1)
     = Some 1 \<and>
   rate (transformItemEntriesToInventory [example_entry_a, example_entry_bare] OUT 5 9 ! 1)
     = Some 2 \<and>
   transactionType
     (transformItemEntriesToInventory [example_entry_a, example_entry_bare] OUT 5 9 ! 1)
     = ''Bill'' \<and>
   transactionId
     (transformItemEntriesToInventory [example_entry_a, example_entry_bare] OUT 5 9 ! 1)
     = 44 \<and>
   entryId (transformItemEntriesToInventory [example_entry_a, example_entry_bare] OUT 5 9 ! 1)
     = 13"
proof -
  have k: "(1::nat) < length [example_entry_a, example_entry_bare]" by simp
  from transformItemEntriesToInventory_copies_fields
         [of "[example_entry_a, example_entry_bare]" OUT 5 9] k
  show ?thesis by (simp add: example_entry_bare_def)
qed

text \<open>
  Claim C9 says that \<^verbatim>\<open>transformItemEntriesToInventory\<close> fails with a validation
  error when, and only when, an entry lacks its item id, quantity or rate. The function
  validates nothing: on an entry without item id it returns normally, with a transaction
  without item id.
\<close>

theorem transformItemEntriesToInventory_accepts_malformed_entry:
  "malformed_entry example_entry_bare \<and>
   transformItemEntriesToInventory [example_entry_bare] IN 5 9 =
     [\<lparr> itemId = None, quantity = Some 1, rate = Some 2, lotNumber = 9,
        transactionType = ''Bill'', transactionId = 44, direction = IN, date = 5,
        entryId = 13 \<rparr>]"
  by (simp add: malformed_entry_def example_entry_bare_def transformItemEntriesToInventory_def)

text \<open>
  Claim C9, amended. \<^verbatim>\<open>transformItemEntriesToInventory\<close> never fails: for every
  list of entries it returns one transaction per entry, and the transaction at a position
  lacks an item id, a quantity or a rate exactly when the entry at that position is
  malformed.
\<close>

theorem transformItemEntriesToInventory_incomplete_iff_malformed:
  "map incomplete_transaction (transformItemEntriesToInventory es d dt n) =
   map malformed_entry es"
  by (simp add: transformItemEntriesToInventory_def incomplete_transaction_def
      malformed_entry_def)

section \<open>Lot sequencer: properties\<close>

lemma settings_after_incrementNextLotNumber:
  "settings (tenancy (snd (incrementNextLotNumber t w)) t) LOT_NUMBER_KEY =
   Some (fst (incrementNextLotNumber t w))"
  by (simp add: incrementNextLotNumber_def Let_def)

lemma incrementNextLotNumber_from_positive:
  "settings (tenancy w t) LOT_NUMBER_KEY = Some k \<Longrightarrow> 0 < k \<Longrightarrow>
   fst (incrementNextLotNumber t w) = k + 1"
  by (simp add: incrementNextLotNumber_def Let_def)

lemma incrementNextLotNumber_from_unset:
  "settings (tenancy w t) LOT_NUMBER_KEY = None \<Longrightarrow> fst (incrementNextLotNumber t w) = 1"
  by (simp add: incrementNextLotNumber_def Let_def)

text \<open>From a counter that holds \<open>k > 0\<close>, \<open>n\<close> calls return \<open>k + 1, ..., k + n\<close>.\<close>

lemma incrementNextLotNumber_times_from_positive:
  "settings (tenancy w t) LOT_NUMBER_KEY = Some k \<Longrightarrow> 0 < k \<Longrightarrow>
   fst (incrementNextLotNumber_times n t w) = [k + 1 .. k + int n] \<and>
   settings (tenancy (snd (incrementNextLotNumber_times n t w)) t) LOT_NUMBER_KEY =
     Some (k + int n)"
proof (induction n arbitrary: w k)
  case 0
  then show ?case by simp
next
  case (Suc n)
  obtain v w' where step: "incrementNextLotNumber t w = (v, w')"
    by (cases "incrementNextLotNumber t w")
  have v: "v = k + 1"
    using incrementNextLotNumber_from_positive [OF Suc.prems] step by simp
  have st: "settings (tenancy w' t) LOT_NUMBER_KEY = Some (k + 1)"
    using settings_after_incrementNextLotNumber [of t w] step v by simp
  have pos: "0 < k + 1" using Suc.prems by simp
  note ih = Suc.IH [OF st pos]
  have up: "[k + 1 .. k + int (Suc n)] = (k + 1) # [k + 1 + 1 .. k + 1 + int n]"
  proof -
    have e: "k + int (Suc n) = k + 1 + int n" by simp
    show ?thesis unfolding e by (rule upto_rec1) simp
  qed
  show ?case using ih step v up
    by (simp add: split_beta add.commute add.left_commute)
qed

text \<open>
  Claim C6. For every \<open>N \<ge> 1\<close>, \<open>N\<close> calls of \<^verbatim>\<open>incrementNextLotNumber\<close> one after
  the other, for a tenant whose counter key is unset, return \<open>1, 2, ..., N\<close>, and the
  counter then holds \<open>N\<close>.
\<close>

theorem incrementNextLotNumber_times_from_unset:
  assumes "settings (tenancy w t) LOT_NUMBER_KEY = None" and "1 \<le> N"
  shows "fst (incrementNextLotNumber_times N t w) = [1 .. int N] \<and>
         settings (tenancy (snd (incrementNextLotNumber_times N t w)) t) LOT_NUMBER_KEY =
           Some (int N)"
proof -
  obtain n where N: "N = Suc n" using assms(2) by (cases N) auto
  obtain v w' where step: "incrementNextLotNumber t w = (v, w')"
    by (cases "incrementNextLotNumber t w")
  have v: "v = 1" using incrementNextLotNumber_from_unset [OF assms(1)] step by simp
  have st: "settings (tenancy w' t) LOT_NUMBER_KEY = Some 1"
    using settings_after_incrementNextLotNumber [of t w] step v by simp
  have rest: "fst (incrementNextLotNumber_times n t w') = [1 + 1 .. 1 + int n] \<and>
      settings (tenancy (snd (incrementNextLotNumber_times n t w')) t) LOT_NUMBER_KEY =
        Some (1 + int n)"
    using incrementNextLotNumber_times_from_positive [OF st] by simp
  have up: "[1 .. int (Suc n)] = 1 # [1 + 1 .. 1 + int n]"
  proof -
    have e: "int (Suc n) = 1 + int n" by simp
    show ?thesis unfolding e by (rule upto_rec1) simp
  qed
  show ?thesis using rest step v up N
    by (simp add: split_beta add.commute)
qed

theorem incrementNextLotNumber_times_from_unset_witness:
  "settings (tenancy example_world 1) LOT_NUMBER_KEY = None \<and>
   fst (incrementNextLotNumber_times 3 1 example_world) = [1, 2, 3] \<and>
   settings (tenancy (snd (incrementNextLotNumber_times 3 1 example_world)) 1) LOT_NUMBER_KEY =
     Some 3"
proof -
  have unset: "settings (tenancy example_world 1) LOT_NUMBER_KEY = None"
    by (simp add: example_world_def example_db_def)
  have n: "1 \<le> (3::nat)" by simp
  have up: "[1 .. int 3] = [1, 2, 3]" by (simp add: upto_rec1)
  from incrementNextLotNumber_times_from_unset [OF unset n] unset up
  show ?thesis by simp
qed

section \<open>Transaction recorder: properties\<close>

text \<open>
  Claim C7. For every call of \<^verbatim>\<open>recordInventoryTransactionsFromItemsEntries\<close> for
  which the entries collaborator returns no inventory entry, the call changes nothing: no
  transaction is inserted, the lot counter keeps its value and no event is dispatched.
\<close>

theorem recordInventoryTransactionsFromItemsEntries_no_entries:
  assumes "getInventoryEntries t ty tid = []"
  shows "recordInventoryTransactionsFromItemsEntries getInventoryEntries
           t tid ty dt dir override w = w"
  using assms by (simp add: recordInventoryTransactionsFromItemsEntries_def)

theorem recordInventoryTransactionsFromItemsEntries_no_entries_witness:
  "example_getInventoryEntries 1 ''Bill'' 99 = [] \<and>
   recordInventoryTransactionsFromItemsEntries example_getInventoryEntries
     1 99 ''Bill'' 5 IN True example_world = example_world"
proof -
  have e: "example_getInventoryEntries 1 ''Bill'' 99 = []"
    by (simp add: example_getInventoryEntries_def)
  from recordInventoryTransactionsFromItemsEntries_no_entries
         [of example_getInventoryEntries 1 "''Bill''" 99 5 IN True example_world] e
  show ?thesis by simp
qed

text \<open>Recording transactions leaves every tenant's settings as they are.\<close>

lemma settings_deleteInventoryTransactions:
  "settings (tenancy (snd (deleteInventoryTransactions t tid ty w)) t') =
   settings (tenancy w t')"
  by (simp add: deleteInventoryTransactions_def Let_def)

lemma settings_recordInventoryTransaction:
  "settings (tenancy (snd (recordInventoryTransaction t e ov w)) t') =
   settings (tenancy w t')"
  by (simp add: recordInventoryTransaction_def Let_def settings_deleteInventoryTransactions)

lemma settings_bulkInsertOpers:
  "settings (tenancy (snd (bulkInsertOpers t ov es w)) t') = settings (tenancy w t')"
proof (induction es arbitrary: w)
  case Nil
  then show ?case by simp
next
  case (Cons e es)
  obtain row w1 where s: "recordInventoryTransaction t e ov w = (row, w1)"
    by (cases "recordInventoryTransaction t e ov w")
  have "settings (tenancy w1 t') = settings (tenancy w t')"
    using settings_recordInventoryTransaction [of t e ov w t'] s by simp
  then show ?case using Cons.IH [of w1] s by (simp add: split_beta)
qed

lemma settings_recordInventoryTransactions:
  "settings (tenancy (recordInventoryTransactions t es ov w) t') = settings (tenancy w t')"
  using settings_bulkInsertOpers [of t ov es w t']
  by (simp add: recordInventoryTransactions_def split_beta)

text \<open>
  The lot number that the next call will stamp, after a call that recorded something:
  one more than the number just stamped when the counter held a positive number, and the
  same number 1 again when the counter was unset.
\<close>

lemma getNextLotNumber_after_record_positive:
  assumes "settings (tenancy w t) LOT_NUMBER_KEY = Some v" and "0 < v"
    and "getInventoryEntries t ty tid \<noteq> []"
  shows "getNextLotNumber t w = v \<and>
         getNextLotNumber t
           (recordInventoryTransactionsFromItemsEntries getInventoryEntries
              t tid ty dt dir ov w) = v + 1"
  using assms
  by (simp add: getNextLotNumber_def recordInventoryTransactionsFromItemsEntries_def Let_def
      incrementNextLotNumber_def settings_recordInventoryTransactions)

lemma getNextLotNumber_after_record_unset:
  assumes "settings (tenancy w t) LOT_NUMBER_KEY = None"
    and "getInventoryEntries t ty tid \<noteq> []"
  shows "getNextLotNumber t w = 1 \<and>
         getNextLotNumber t
           (recordInventoryTransactionsFromItemsEntries getInventoryEntries
              t tid ty dt dir ov w) = 1"
  using assms
  by (simp add: getNextLotNumber_def recordInventoryTransactionsFromItemsEntries_def Let_def
      incrementNextLotNumber_def settings_recordInventoryTransactions)

text \<open>
  Claim C2 says that over successive successful calls of
  \<^verbatim>\<open>recordInventoryTransactionsFromItemsEntries\<close> for one tenant the lot numbers
  stamped on the recorded transactions increase strictly, none being used twice. From an
  unset counter the code stamps the transactions of the first two documents with the same
  lot number 1: \<^verbatim>\<open>getNextLotNumber\<close> reads an unset counter as 1, and the first
  \<^verbatim>\<open>incrementNextLotNumber\<close> stores 1, not 2.
\<close>

theorem recordInventoryTransactionsFromItemsEntries_reuses_lot_number:
  "settings (tenancy example_world 1) LOT_NUMBER_KEY = None \<and>
   map (\<lambda>t. (transactionId t, lotNumber t))
     (inventoryTransactions (tenancy
        (recordInventoryTransactionsFromItemsEntries example_getInventoryEntries
           1 43 ''Bill'' 6 IN False
           (recordInventoryTransactionsFromItemsEntries example_getInventoryEntries
              1 42 ''Bill'' 5 IN False example_world)) 1)) =
     [(42, 1), (43, 1)]"
  by (simp add: recordInventoryTransactionsFromItemsEntries_def example_getInventoryEntries_def
      getNextLotNumber_def example_world_def example_db_def LOT_NUMBER_KEY_def Let_def
      transformItemEntriesToInventory_def recordInventoryTransactions_def
      recordInventoryTransaction_def incrementNextLotNumber_def example_entry_a_def
      example_entry_b_def)

section \<open>Cost compute dispatcher: properties\<close>

text \<open>For an inventory item the average cost computer is run, whatever the item's cost method.\<close>

lemma computeItemCost_inventory_item:
  "findById (items (tenancy w t)) i = Some item \<Longrightarrow> item_type item = ''inventory'' \<Longrightarrow>
   computeItemCost run t d i w = run (InventoryAverageCost t d i) w"
  by (simp add: computeItemCost_def)

text \<open>
  Claim C1 says that \<^verbatim>\<open>computeItemCost\<close> runs the lot tracker for an item whose
  cost method is FIFO or LIFO and the average cost computer for an item whose cost method
  is AVG. For the inventory item 7, whose cost method is FIFO, the code runs the average
  cost computer and not the lot tracker: its \<^verbatim>\<open>switch\<close> is on the literal
  \<^verbatim>\<open>'AVG'\<close>.
\<close>

theorem computeItemCost_FIFO_item_runs_average_cost:
  "findById (items (tenancy example_world 1)) 7 =
     Some \<lparr> item_id = 7, item_type = ''inventory'', item_costMethod = FIFO \<rparr> \<and>
   computeItemCost report_computer 1 5 7 example_world =
     (Inr (InventoryAverageCost 1 5 7), example_world) \<and>
   computeItemCost report_computer 1 5 7 example_world \<noteq>
     (Inr (InventoryCostLotTracker 1 5 7), example_world)"
  by (simp add: computeItemCost_def findById_def example_world_def example_db_def
      report_computer_def)

text \<open>
  Claim C5. For every existing item whose type is not \<^verbatim>\<open>'inventory'\<close>,
  \<^verbatim>\<open>computeItemCost\<close> fails with the service's error, runs no cost computer
  (whatever the computers do) and leaves the world, hence the lot cost rows of every
  tenant, as it was.
\<close>

theorem computeItemCost_not_inventory:
  assumes "findById (items (tenancy w t)) i = Some item"
    and "item_type item \<noteq> ''inventory''"
  shows "computeItemCost run t d i w =
           (Inl (Error ''You could not compute item cost has no inventory type.''), w) \<and>
         inventoryCostLotTracker (tenancy (snd (computeItemCost run t d i w)) t') =
           inventoryCostLotTracker (tenancy w t')"
  using assms by (simp add: computeItemCost_def)

theorem computeItemCost_not_inventory_witness:
  "findById (items (tenancy example_world 1)) 8 =
     Some \<lparr> item_id = 8, item_type = ''service'', item_costMethod = AVG \<rparr> \<and>
   computeItemCost report_computer 1 5 8 example_world =
     (Inl (Error ''You could not compute item cost has no inventory type.''), example_world)"
proof -
  have f: "findById (items (tenancy example_world 1)) 8 =
     Some \<lparr> item_id = 8, item_type = ''service'', item_costMethod = AVG \<rparr>"
    by (simp add: findById_def example_world_def example_db_def)
  have ty: "item_type \<lparr> item_id = 8, item_type = ''service'', item_costMethod = AVG \<rparr>
              \<noteq> ''inventory''"
    by simp
  from computeItemCost_not_inventory [OF f ty, of report_computer 5] f
  show ?thesis by simp
qed

text \<open>
  Claim C10. For every item id for which the item lookup returns no item,
  \<^verbatim>\<open>computeItemCost\<close> does not raise its "not an inventory item" error: the guard
  reads \<^verbatim>\<open>type\<close> of the missing item, and the call fails with the
  \<^verbatim>\<open>TypeError\<close> of that read, before the guard's branch and without any change of
  the world.
\<close>

theorem computeItemCost_missing_item:
  assumes "findById (items (tenancy w t)) i = None"
  shows "computeItemCost run t d i w = (Inl TypeError, w) \<and>
         fst (computeItemCost run t d i w) \<noteq> Inl (Error msg)"
  using assms by (simp add: computeItemCost_def)

theorem computeItemCost_missing_item_witness:
  "findById (items (tenancy example_world 1)) 9 = None \<and>
   computeItemCost report_computer 1 5 9 example_world = (Inl TypeError, example_world)"
proof -
  have f: "findById (items (tenancy example_world 1)) 9 = None"
    by (simp add: findById_def example_world_def example_db_def)
  from computeItemCost_missing_item [OF f, of report_computer 5] f
  show ?thesis by simp
qed

section \<open>Compute scheduler: properties\<close>

lemma agenda_cancel_none:
  "(\<And>j. j \<in> set q \<Longrightarrow> \<not> P j) \<Longrightarrow> agenda_cancel P q = q"
  by (simp add: agenda_cancel_def)

text \<open>
  After the cancellation, the pending jobs of the item, and likewise the jobs that the
  second query returns, are the old ones that start at the requested date or before.
\<close>

lemma pending_jobs_agenda_cancel:
  "pending_jobs t i
     (agenda_cancel (\<lambda>j. pending_compute_job t i j \<and> D < data_startingDate j) q) =
   filter (\<lambda>j. data_startingDate j \<le> D) (pending_jobs t i q)"
  by (induction q) (auto simp: pending_jobs_def agenda_cancel_def)

lemma dependsJobs_agenda_cancel:
  "agenda_jobs (\<lambda>j. pending_compute_job t i j \<and> data_startingDate j \<le> D)
     (agenda_cancel (\<lambda>j. pending_compute_job t i j \<and> D < data_startingDate j) q) =
   filter (\<lambda>j. data_startingDate j \<le> D) (pending_jobs t i q)"
  by (induction q) (auto simp: pending_jobs_def agenda_cancel_def agenda_jobs_def)

lemma pending_new_job: "pending_compute_job t i (new_job r ''compute-item-cost'' D i t)"
  by (simp add: pending_compute_job_def new_job_def)

text \<open>The pending jobs of the item after a call, from those before it.\<close>

lemma pending_jobs_scheduleComputeItemCost:
  "pending_jobs t i (agenda (scheduleComputeItemCost r t i D w)) =
     (let covering = filter (\<lambda>j. data_startingDate j \<le> D) (pending_jobs t i (agenda w))
      in if covering = [] then [new_job r ''compute-item-cost'' D i t] else covering)"
proof -
  let ?q = "agenda_cancel (\<lambda>j. pending_compute_job t i j \<and> D < data_startingDate j)
              (agenda w)"
  let ?c = "filter (\<lambda>j. data_startingDate j \<le> D) (pending_jobs t i (agenda w))"
  have p: "pending_jobs t i ?q = ?c" by (rule pending_jobs_agenda_cancel)
  have d: "agenda_jobs (\<lambda>j. pending_compute_job t i j \<and> data_startingDate j \<le> D) ?q = ?c"
    by (rule dependsJobs_agenda_cancel)
  show ?thesis
  proof (cases "?c = []")
    case True
    have "agenda (scheduleComputeItemCost r t i D w) =
            ?q @ [new_job r ''compute-item-cost'' D i t]"
      using True d by (simp add: scheduleComputeItemCost_def Let_def agenda_schedule_def)
    then have "pending_jobs t i (agenda (scheduleComputeItemCost r t i D w)) =
        pending_jobs t i ?q @ [new_job r ''compute-item-cost'' D i t]"
      using pending_new_job [of t i r D] by (simp add: pending_jobs_def)
    then show ?thesis using True p by (simp add: Let_def)
  next
    case False
    have "agenda (scheduleComputeItemCost r t i D w) = ?q"
      using False d by (simp add: scheduleComputeItemCost_def Let_def)
    then show ?thesis using False p by (simp add: Let_def)
  qed
qed

text \<open>
  A queue with at most one pending compute job for the item has exactly one after a
  call: calls made one after the other never leave two.
\<close>

lemma scheduleComputeItemCost_single_pending_job:
  assumes "length (pending_jobs t i (agenda w)) \<le> 1"
  shows "length (pending_jobs t i (agenda (scheduleComputeItemCost r t i D w))) = 1"
proof -
  let ?c = "filter (\<lambda>j. data_startingDate j \<le> D) (pending_jobs t i (agenda w))"
  have "length ?c \<le> 1"
    using assms length_filter_le [of _ "pending_jobs t i (agenda w)"] by (meson le_trans)
  then have "?c \<noteq> [] \<Longrightarrow> length ?c = 1" by (cases ?c) auto
  then show ?thesis
    by (cases "?c = []") (simp_all add: pending_jobs_scheduleComputeItemCost Let_def)
qed

text \<open>
  A call that finds a pending job of the item starting at the requested date or before
  adds no job and dispatches no event.
\<close>

lemma scheduleComputeItemCost_covered:
  assumes "j \<in> set (pending_jobs t i (agenda w))" and "data_startingDate j \<le> D"
  shows "dispatched (scheduleComputeItemCost r t i D w) = dispatched w \<and>
         agenda (scheduleComputeItemCost r t i D w) =
           agenda_cancel (\<lambda>j. pending_compute_job t i j \<and> D < data_startingDate j) (agenda w)"
proof -
  have "j \<in> set (filter (\<lambda>j. data_startingDate j \<le> D) (pending_jobs t i (agenda w)))"
    using assms by simp
  then have "filter (\<lambda>j. data_startingDate j \<le> D) (pending_jobs t i (agenda w)) \<noteq> []"
    by (metis empty_iff empty_set)
  then show ?thesis
    using dependsJobs_agenda_cancel [of t i D "agenda w"]
    by (simp add: scheduleComputeItemCost_def Let_def)
qed

text \<open>
  Claim C3. For every tenant \<open>t\<close>, item \<open>i\<close> and dates \<open>D1 < D2\<close>: when
  \<^verbatim>\<open>scheduleComputeItemCost(t, i, D2)\<close> and then
  \<^verbatim>\<open>scheduleComputeItemCost(t, i, D1)\<close> are called one after the other, on a queue in
  which no pending compute job of \<open>(t, i)\<close> starts at \<open>D2\<close> or before, the first call
  leaves the job starting at \<open>D2\<close> as the pending job of \<open>(t, i)\<close>, and after the second
  call that job is no longer in the queue and exactly one pending compute job remains
  for \<open>(t, i)\<close>, the one starting at \<open>D1\<close>.
\<close>

theorem scheduleComputeItemCost_later_then_earlier:
  assumes "D1 < D2"
    and "filter (\<lambda>j. data_startingDate j \<le> D2) (pending_jobs t i (agenda w)) = []"
  shows "pending_jobs t i (agenda (scheduleComputeItemCost r2 t i D2 w)) =
           [new_job r2 ''compute-item-cost'' D2 i t] \<and>
         pending_jobs t i (agenda (scheduleComputeItemCost r1 t i D1
            (scheduleComputeItemCost r2 t i D2 w))) =
           [new_job r1 ''compute-item-cost'' D1 i t] \<and>
         new_job r2 ''compute-item-cost'' D2 i t \<notin>
           set (agenda (scheduleComputeItemCost r1 t i D1
                  (scheduleComputeItemCost r2 t i D2 w)))"
proof -
  let ?w1 = "scheduleComputeItemCost r2 t i D2 w"
  let ?w2 = "scheduleComputeItemCost r1 t i D1 ?w1"
  let ?j2 = "new_job r2 ''compute-item-cost'' D2 i t"
  let ?j1 = "new_job r1 ''compute-item-cost'' D1 i t"
  have first: "pending_jobs t i (agenda ?w1) = [?j2]"
    using assms(2) by (simp add: pending_jobs_scheduleComputeItemCost [of t i r2 D2 w])
  have d2: "data_startingDate ?j2 = D2" by (simp add: new_job_def)
  have second: "pending_jobs t i (agenda ?w2) = [?j1]"
    using first d2 assms(1)
    by (simp add: pending_jobs_scheduleComputeItemCost [of t i r1 D1 ?w1])
  have gone: "?j2 \<notin> set (agenda ?w2)"
  proof
    assume "?j2 \<in> set (agenda ?w2)"
    then have "?j2 \<in> set (pending_jobs t i (agenda ?w2))"
      using pending_new_job [of t i r2 D2] by (simp add: pending_jobs_def)
    then have "?j2 = ?j1" using second by simp
    then have "data_startingDate ?j2 = data_startingDate ?j1" by simp
    then show False using assms(1) by (simp add: new_job_def)
  qed
  from first second gone show ?thesis by simp
qed

theorem scheduleComputeItemCost_later_then_earlier_witness:
  "(3::int) < 9 \<and>
   filter (\<lambda>j. data_startingDate j \<le> 9)
     (pending_jobs 1 7 (agenda example_world_later_job)) = [] \<and>
   pending_jobs 1 7 (agenda example_world_later_job) =
     [new_job 50 ''compute-item-cost'' 20 7 1] \<and>
   pending_jobs 1 7 (agenda (scheduleComputeItemCost 60 1 7 9 example_world_later_job)) =
     [new_job 60 ''compute-item-cost'' 9 7 1] \<and>
   pending_jobs 1 7 (agenda (scheduleComputeItemCost 70 1 7 3
      (scheduleComputeItemCost 60 1 7 9 example_world_later_job))) =
     [new_job 70 ''compute-item-cost'' 3 7 1] \<and>
   new_job 60 ''compute-item-cost'' 9 7 1 \<notin>
     set (agenda (scheduleComputeItemCost 70 1 7 3
            (scheduleComputeItemCost 60 1 7 9 example_world_later_job)))"
proof -
  have lt: "(3::int) < 9" by simp
  have p: "pending_jobs 1 7 (agenda example_world_later_job) =
             [new_job 50 ''compute-item-cost'' 20 7 1]"
    by (simp add: example_world_later_job_def pending_jobs_def pending_compute_job_def
        new_job_def)
  have none: "filter (\<lambda>j. data_startingDate j \<le> 9)
                (pending_jobs 1 7 (agenda example_world_later_job)) = []"
    unfolding p by (simp add: new_job_def)
  from scheduleComputeItemCost_later_then_earlier [OF lt none, of 60 70] lt none p
  show ?thesis by simp
qed

text \<open>
  Claim C4. For every tenant \<open>t\<close>, item \<open>i\<close> and dates \<open>D1 < D2\<close>: when the pending
  compute job of \<open>(t, i)\<close> is a job starting at \<open>D1\<close>, the call
  \<^verbatim>\<open>scheduleComputeItemCost(t, i, D2)\<close> changes nothing: it adds no job to the queue,
  dispatches no event, and that job remains the one pending compute job of \<open>(t, i)\<close>.
\<close>

theorem scheduleComputeItemCost_covered_by_earlier:
  assumes "D1 < D2"
    and "pending_jobs t i (agenda w) = [j]"
    and "data_startingDate j = D1"
  shows "scheduleComputeItemCost r t i D2 w = w \<and>
         pending_jobs t i (agenda (scheduleComputeItemCost r t i D2 w)) = [j]"
proof -
  have inq: "\<And>j'. j' \<in> set (agenda w) \<Longrightarrow> pending_compute_job t i j' \<Longrightarrow> j' = j"
  proof -
    fix j' assume "j' \<in> set (agenda w)" "pending_compute_job t i j'"
    then have "j' \<in> set (pending_jobs t i (agenda w))" by (simp add: pending_jobs_def)
    then show "j' = j" using assms(2) by simp
  qed
  have keep: "agenda_cancel (\<lambda>j. pending_compute_job t i j \<and> D2 < data_startingDate j)
                (agenda w) = agenda w"
  proof (rule agenda_cancel_none)
    fix j' assume "j' \<in> set (agenda w)"
    then show "\<not> (pending_compute_job t i j' \<and> D2 < data_startingDate j')"
      using inq [of j'] assms(1,3) by auto
  qed
  have "filter (\<lambda>j. data_startingDate j \<le> D2) (pending_jobs t i (agenda w)) = [j]"
    using assms by simp
  then have cover:
    "agenda_jobs (\<lambda>j. pending_compute_job t i j \<and> data_startingDate j \<le> D2) (agenda w) = [j]"
    using dependsJobs_agenda_cancel [of t i D2 "agenda w"] keep by simp
  have same: "scheduleComputeItemCost r t i D2 w = w"
    using keep cover by (simp add: scheduleComputeItemCost_def Let_def)
  show ?thesis using same assms(2) by simp
qed

theorem scheduleComputeItemCost_covered_by_earlier_witness:
  "(3::int) < 9 \<and>
   pending_jobs 1 7 (agenda example_world_early_job) =
     [new_job 50 ''compute-item-cost'' 3 7 1] \<and>
   scheduleComputeItemCost 60 1 7 9 example_world_early_job = example_world_early_job"
proof -
  have lt: "(3::int) < 9" by simp
  have p: "pending_jobs 1 7 (agenda example_world_early_job) =
             [new_job 50 ''compute-item-cost'' 3 7 1]"
    by (simp add: example_world_early_job_def pending_jobs_def pending_compute_job_def
        new_job_def)
  have d: "data_startingDate (new_job 50 ''compute-item-cost'' 3 7 1) = 3"
    by (simp add: new_job_def)
  from scheduleComputeItemCost_covered_by_earlier [OF lt p d, of 60] lt p
  show ?thesis by simp
qed

end
